theory Spec2Isabelle
  imports Complex_Main "HOL-Library.Monad_Syntax" "HOL-Library.Log_Nat"
begin

section \<open>JavaScript numbers and dates\<close>

text \<open>
  The statistics services compute with JavaScript numbers, which are binary64 floating
  point numbers. A finite number is modelled by the rational it denotes (the two zeros
  are one value); the three non-finite values are constructors, so that a division by
  zero is a value of the model and not HOL's \<open>x / 0 = 0\<close>.
\<close>

datatype jsnum = Fin rat | PosInf | NegInf | NaN

text \<open>
  The result of an arithmetic operation on finite numbers is the exact result rounded to
  the nearest number with a significand of 53 bits, a tie going to the even significand.
  \<open>binade x\<close> is the exponent \<open>e\<close> with \<open>2\<^sup>e \<le> \<bar>x\<bar> < 2\<^sup>e\<^sup>+\<^sup>1\<close>, and the numbers of that binade
  are the multiples of \<open>2\<^sup>e\<^sup>-\<^sup>5\<^sup>2\<close>. The range of the exponent is not modelled: a result
  beyond 1.8e308 stays finite where the machine gives an infinity, and there are no
  subnormal numbers. For dates in the range of dates and \<^verbatim>\<open>numBuckets\<close> from 1 to \<open>2\<^sup>5\<^sup>3\<close>
  every result in the services is zero or of magnitude between \<open>2\<^sup>-\<^sup>5\<^sup>3\<close> and \<open>2\<^sup>1\<^sup>1\<^sup>2\<close>, far
  from either end.
\<close>

definition binade :: "rat \<Rightarrow> int" where
  "binade x =
     (if 1 \<le> \<bar>x\<bar> then bitlen \<lfloor>\<bar>x\<bar>\<rfloor> - 1 else - bitlen (\<lceil>1 / \<bar>x\<bar>\<rceil> - 1))"

definition roundTiesToEven :: "rat \<Rightarrow> int" where
  "roundTiesToEven x =
     (let f = \<lfloor>x\<rfloor>; d = x - of_int f
      in if d < 1 / 2 then f else if 1 / 2 < d then f + 1 else if even f then f else f + 1)"

definition binary64 :: "rat \<Rightarrow> rat" where
  "binary64 x =
     (if x = 0 then 0
      else let ulp = 2 powi (binade x - 52) in of_int (roundTiesToEven (x / ulp)) * ulp)"

text \<open>The operator \<^verbatim>\<open>/\<close>.\<close>

fun js_div :: "jsnum \<Rightarrow> jsnum \<Rightarrow> jsnum" where
  "js_div (Fin a) (Fin b) =
     (if b \<noteq> 0 then Fin (binary64 (a / b))
      else if 0 < a then PosInf else if a < 0 then NegInf else NaN)"
| "js_div (Fin a) PosInf = Fin 0"
| "js_div (Fin a) NegInf = Fin 0"
| "js_div PosInf (Fin b) = (if b < 0 then NegInf else PosInf)"
| "js_div NegInf (Fin b) = (if b < 0 then PosInf else NegInf)"
| "js_div _ _ = NaN"

text \<open>The operator \<^verbatim>\<open>*\<close>.\<close>

fun js_mul :: "jsnum \<Rightarrow> jsnum \<Rightarrow> jsnum" where
  "js_mul (Fin a) (Fin b) = Fin (binary64 (a * b))"
| "js_mul (Fin a) PosInf = (if 0 < a then PosInf else if a < 0 then NegInf else NaN)"
| "js_mul (Fin a) NegInf = (if 0 < a then NegInf else if a < 0 then PosInf else NaN)"
| "js_mul PosInf (Fin b) = (if 0 < b then PosInf else if b < 0 then NegInf else NaN)"
| "js_mul NegInf (Fin b) = (if 0 < b then NegInf else if b < 0 then PosInf else NaN)"
| "js_mul PosInf PosInf = PosInf"
| "js_mul PosInf NegInf = NegInf"
| "js_mul NegInf PosInf = NegInf"
| "js_mul NegInf NegInf = PosInf"
| "js_mul _ _ = NaN"

text \<open>The operators \<^verbatim>\<open>+\<close> and \<^verbatim>\<open>-\<close> on numbers.\<close>

fun js_add :: "jsnum \<Rightarrow> jsnum \<Rightarrow> jsnum" where
  "js_add (Fin a) (Fin b) = Fin (binary64 (a + b))"
| "js_add NaN _ = NaN"
| "js_add _ NaN = NaN"
| "js_add PosInf NegInf = NaN"
| "js_add NegInf PosInf = NaN"
| "js_add PosInf _ = PosInf"
| "js_add _ PosInf = PosInf"
| "js_add NegInf _ = NegInf"
| "js_add _ NegInf = NegInf"

fun js_sub :: "jsnum \<Rightarrow> jsnum \<Rightarrow> jsnum" where
  "js_sub (Fin a) (Fin b) = Fin (binary64 (a - b))"
| "js_sub NaN _ = NaN"
| "js_sub _ NaN = NaN"
| "js_sub PosInf PosInf = NaN"
| "js_sub NegInf NegInf = NaN"
| "js_sub PosInf _ = PosInf"
| "js_sub _ NegInf = PosInf"
| "js_sub NegInf _ = NegInf"
| "js_sub _ PosInf = NegInf"

text \<open>
  \<^verbatim>\<open>Math.floor\<close> and the two-argument \<^verbatim>\<open>Math.max\<close>; their results are exact.
\<close>

fun Math_floor :: "jsnum \<Rightarrow> jsnum" where
  "Math_floor (Fin a) = Fin (of_int \<lfloor>a\<rfloor>)"
| "Math_floor x = x"

fun Math_max :: "jsnum \<Rightarrow> jsnum \<Rightarrow> jsnum" where
  "Math_max NaN _ = NaN"
| "Math_max _ NaN = NaN"
| "Math_max PosInf _ = PosInf"
| "Math_max _ PosInf = PosInf"
| "Math_max NegInf y = y"
| "Math_max x NegInf = x"
| "Math_max (Fin a) (Fin b) = Fin (max a b)"

text \<open>
  A \<^verbatim>\<open>Date\<close> object holds a time value: an integral number of milliseconds since the
  epoch of magnitude at most 8.64e15, or NaN (an invalid date). \<open>new_Date\<close> is the
  constructor applied to a number (it truncates towards zero and clips to the range),
  \<open>getTime\<close> the method of that name.
\<close>

datatype date = Date int | Invalid_Date

definition js_trunc :: "rat \<Rightarrow> int" where
  "js_trunc r = (if 0 \<le> r then \<lfloor>r\<rfloor> else \<lceil>r\<rceil>)"

fun new_Date :: "jsnum \<Rightarrow> date" where
  "new_Date (Fin r) =
     (if \<bar>r\<bar> \<le> 8640000000000000 then Date (js_trunc r) else Invalid_Date)"
| "new_Date _ = Invalid_Date"

fun getTime :: "date \<Rightarrow> jsnum" where
  "getTime (Date t) = Fin (of_int t)"
| "getTime Invalid_Date = NaN"


text \<open>
  \<^verbatim>\<open>xs.slice(start, end)\<close>: both bounds are truncated to integers, a negative bound counts
  from the end of the array, and each is clamped to the array.
\<close>

definition Array_slice :: "'a list \<Rightarrow> rat \<Rightarrow> rat \<Rightarrow> 'a list" where
  "Array_slice xs start end =
     (let len = int (length xs);
          relativeStart = js_trunc start;
          k = (if relativeStart < 0 then max (len + relativeStart) 0 else min relativeStart len);
          relativeEnd = js_trunc end;
          final = (if relativeEnd < 0 then max (len + relativeEnd) 0 else min relativeEnd len)
      in take (nat (final - k)) (drop (nat k) xs))"

text \<open>
  \<^verbatim>\<open>new Map(entries)\<close> sets the entries in order, so a later entry replaces an earlier one
  with the same key. Keys are compared by SameValueZero, which on \<open>jsnum\<close> is equality.
\<close>

definition new_Map :: "('k \<times> 'v) list \<Rightarrow> ('k \<rightharpoonup> 'v)" where
  "new_Map entries = foldl (\<lambda>m (k, v). m(k \<mapsto> v)) Map.empty entries"

section \<open>Rows and results\<close>

text \<open>
  The four statistics every query selects; a bucketed row adds \<^verbatim>\<open>bucket_start\<close>, a
  bucketed row per facilitator adds \<^verbatim>\<open>facilitator_name\<close> to that, and the overall row
  adds \<^verbatim>\<open>latest_block_timestamp\<close>.
\<close>

record stats =
  total_transactions :: jsnum
  total_amount :: jsnum
  unique_buyers :: jsnum
  unique_sellers :: jsnum

record bucket_stats = stats +
  bucket_start :: date


record overall_stats = stats +
  latest_block_timestamp :: date

text \<open>A row of the top-facilitators query, and the row the service returns for it.\<close>

record top_facilitator =
  tf_unique_sellers :: jsnum
  tf_unique_buyers :: jsnum
  tx_count :: jsnum
  tf_total_amount :: jsnum
  tf_latest_block_timestamp :: date
  tf_facilitator_name :: string

record 'f listed_facilitator = top_facilitator +
  facilitator :: "'f option"


section \<open>Input schemas\<close>

text \<open>
  A zod schema maps an input to the parsed data, or to no data when it raises an issue.
  \<^verbatim>\<open>z.date()\<close> accepts a valid date, \<^verbatim>\<open>z.number()\<close> a number that is not NaN, taken here
  to be finite;
  \<^verbatim>\<open>.optional()\<close> lets \<^verbatim>\<open>undefined\<close> through, \<^verbatim>\<open>.default(v)\<close> replaces it by \<open>v\<close>, and
  \<^verbatim>\<open>z.array(s)\<close> parses every element with \<open>s\<close>.
\<close>

definition z_date :: "date \<Rightarrow> int option" where
  "z_date d = (case d of Date t \<Rightarrow> Some t | Invalid_Date \<Rightarrow> None)"

definition z_number :: "jsnum \<Rightarrow> rat option" where
  "z_number x = (case x of Fin r \<Rightarrow> Some r | _ \<Rightarrow> None)"

definition z_optional :: "('i \<Rightarrow> 'o option) \<Rightarrow> 'i option \<Rightarrow> 'o option option" where
  "z_optional s x = (case x of None \<Rightarrow> Some None | Some v \<Rightarrow> map_option Some (s v))"

definition z_default :: "('i \<Rightarrow> 'o option) \<Rightarrow> 'o \<Rightarrow> 'i option \<Rightarrow> 'o option" where
  "z_default s v x = (case x of None \<Rightarrow> Some v | Some y \<Rightarrow> s y)"

fun z_array :: "('i \<Rightarrow> 'o option) \<Rightarrow> 'i list \<Rightarrow> 'o list option" where
  "z_array s [] = Some []"
| "z_array s (x # xs) =
     (case s x of None \<Rightarrow> None | Some y \<Rightarrow> map_option ((#) y) (z_array s xs))"

text \<open>
  \<^verbatim>\<open>schema.safeParse(input)\<close> and \<^verbatim>\<open>schema.parse(input)\<close>. The text of a \<^verbatim>\<open>ZodError\<close> is
  zod's own; \<open>message\<close> stands for it.
\<close>

datatype 'a safe_parse_result = Success 'a | Failure string

datatype error = Error string | ZodError string

definition safeParse :: "('i \<Rightarrow> string) \<Rightarrow> ('i \<Rightarrow> 'o option) \<Rightarrow> 'i \<Rightarrow> 'o safe_parse_result" where
  "safeParse message schema input =
     (case schema input of Some d \<Rightarrow> Success d | None \<Rightarrow> Failure (message input))"

definition parse :: "('i \<Rightarrow> string) \<Rightarrow> ('i \<Rightarrow> 'o option) \<Rightarrow> 'i \<Rightarrow> error + 'o" where
  "parse message schema input =
     (case schema input of Some d \<Rightarrow> Inr d | None \<Rightarrow> Inl (ZodError (message input)))"

text \<open>
  What the services import from modules outside these files: \<^verbatim>\<open>baseQuerySchema\<close> (its
  parsed data has the fields \<^verbatim>\<open>facilitators\<close> and \<^verbatim>\<open>tokens\<close>), \<^verbatim>\<open>ethereumAddressSchema\<close>,
  \<^verbatim>\<open>sortingSchema\<close>, \<^verbatim>\<open>subMonths\<close> of date-fns, \<^verbatim>\<open>USDC_ADDRESS\<close> and \<^verbatim>\<open>facilitatorNameMap\<close>.
  Type \<open>'b\<close> is the input of the base schema, \<open>'s\<close> the input of a sorting schema and
  \<open>'f\<close> a facilitator.
\<close>

record base_query =
  facilitators :: "string list"
  tokens :: "string list"

record ('b, 's, 'f) lib =
  baseQuerySchema :: "'b \<Rightarrow> base_query option"
  ethereumAddressSchema :: "string \<Rightarrow> string option"
  sortingSchema :: "string list \<Rightarrow> 's \<Rightarrow> (string \<times> bool) option"
  subMonths :: "int \<Rightarrow> int \<Rightarrow> int"
  USDC_ADDRESS :: string
  facilitatorNameMap :: "string \<rightharpoonup> 'f"

text \<open>\<^verbatim>\<open>overallStatisticsInputSchema\<close>, its input and its parsed data.\<close>

record 'b overall_raw =
  overall_base_in :: 'b
  overall_addresses_in :: "string list option"
  overall_startDate_in :: "date option"
  overall_endDate_in :: "date option"

record overall_input = base_query +
  overall_addresses :: "string list option"
  overall_startDate :: "int option"
  overall_endDate :: "int option"

definition overallStatisticsInputSchema ::
  "('b, 's, 'f) lib \<Rightarrow> 'b overall_raw \<Rightarrow> overall_input option" where
  "overallStatisticsInputSchema lib input = do {
     base \<leftarrow> baseQuerySchema lib (overall_base_in input);
     a \<leftarrow> z_optional (z_array (ethereumAddressSchema lib)) (overall_addresses_in input);
     s \<leftarrow> z_optional z_date (overall_startDate_in input);
     e \<leftarrow> z_optional z_date (overall_endDate_in input);
     Some \<lparr>facilitators = facilitators base, tokens = tokens base,
       overall_addresses = a, overall_startDate = s, overall_endDate = e\<rparr>
   }"

text \<open>\<^verbatim>\<open>listTopSellersInputSchema\<close>: the same fields and \<^verbatim>\<open>sorting\<close>.\<close>

definition sellerSortIds :: "string list" where
  "sellerSortIds = [''tx_count'', ''total_amount'', ''latest_block_timestamp'', ''unique_buyers'']"

record ('b, 's) sellers_raw = "'b overall_raw" +
  sorting_in :: 's

record sellers_input = overall_input +
  sorting :: "string \<times> bool"

definition listTopSellersInputSchema ::
  "('b, 's, 'f) lib \<Rightarrow> ('b, 's) sellers_raw \<Rightarrow> sellers_input option" where
  "listTopSellersInputSchema lib input = do {
     base \<leftarrow> baseQuerySchema lib (overall_base_in input);
     so \<leftarrow> sortingSchema lib sellerSortIds (sorting_in input);
     a \<leftarrow> z_optional (z_array (ethereumAddressSchema lib)) (overall_addresses_in input);
     s \<leftarrow> z_optional z_date (overall_startDate_in input);
     e \<leftarrow> z_optional z_date (overall_endDate_in input);
     Some \<lparr>facilitators = facilitators base, tokens = tokens base,
       overall_addresses = a, overall_startDate = s, overall_endDate = e, sorting = so\<rparr>
   }"

text \<open>
  The two schemas named \<^verbatim>\<open>bucketedStatisticsInputSchema\<close>: the one of the bucketed
  statistics has \<^verbatim>\<open>addresses\<close>, the one of the bucketed facilitators statistics has
  not. \<open>now\<close> is the time value of \<^verbatim>\<open>new Date()\<close> when the defaults are computed.
\<close>

record 'b bucket_query_raw =
  base_in :: 'b
  startDate_in :: "date option"
  endDate_in :: "date option"
  numBuckets_in :: "jsnum option"

record 'b bucketed_raw = "'b bucket_query_raw" +
  addresses_in :: "string list option"

record bucket_query = base_query +
  startDate :: int
  endDate :: int
  numBuckets :: rat

record bucketed_input = bucket_query +
  addresses :: "string list option"

definition bucketedStatisticsInputSchema ::
  "('b, 's, 'f) lib \<Rightarrow> int \<Rightarrow> 'b bucketed_raw \<Rightarrow> bucketed_input option" where
  "bucketedStatisticsInputSchema lib now input = do {
     base \<leftarrow> baseQuerySchema lib (base_in input);
     a \<leftarrow> z_optional (z_array (ethereumAddressSchema lib)) (addresses_in input);
     s \<leftarrow> z_default z_date (subMonths lib now 1) (startDate_in input);
     e \<leftarrow> z_default z_date now (endDate_in input);
     n \<leftarrow> z_default z_number 48 (numBuckets_in input);
     Some \<lparr>facilitators = facilitators base, tokens = tokens base,
       startDate = s, endDate = e, numBuckets = n, addresses = a\<rparr>
   }"


text \<open>\<^verbatim>\<open>listTopFacilitatorsInputSchema\<close>, a plain \<^verbatim>\<open>z.object\<close>.\<close>

definition listTopFacilitatorsSortIds :: "string list" where
  "listTopFacilitatorsSortIds =
     [''tx_count'', ''total_amount'', ''latest_block_timestamp'', ''unique_buyers'',
      ''unique_sellers'']"

record 's top_facilitators_raw =
  tf_startDate_in :: "date option"
  tf_endDate_in :: "date option"
  limit_in :: "jsnum option"
  tf_sorting_in :: "'s option"
  tf_tokens_in :: "string list option"

record top_facilitators_input =
  tf_startDate :: "int option"
  tf_endDate :: "int option"
  limit :: rat
  tf_sorting :: "string \<times> bool"
  tf_tokens :: "string list"

definition listTopFacilitatorsInputSchema ::
  "('b, 's, 'f) lib \<Rightarrow> 's top_facilitators_raw \<Rightarrow> top_facilitators_input option" where
  "listTopFacilitatorsInputSchema lib input = do {
     s \<leftarrow> z_optional z_date (tf_startDate_in input);
     e \<leftarrow> z_optional z_date (tf_endDate_in input);
     l \<leftarrow> z_default z_number 100 (limit_in input);
     so \<leftarrow> z_default (sortingSchema lib listTopFacilitatorsSortIds) (''tx_count'', True)
            (tf_sorting_in input);
     t \<leftarrow> z_default (z_array (ethereumAddressSchema lib)) [USDC_ADDRESS lib] (tf_tokens_in input);
     Some \<lparr>tf_startDate = s, tf_endDate = e, limit = l, tf_sorting = so, tf_tokens = t\<rparr>
   }"

section \<open>The services\<close>

text \<open>
  Each service validates its input, assembles a SQL string and awaits
  \<^verbatim>\<open>runBaseSqlQuery\<close>, which resolves to \<^verbatim>\<open>null\<close> or to rows that passed the output
  schema. The SQL text and the engine are outside the model: \<open>result\<close> is the value the
  query resolved to (\<open>None\<close> for \<^verbatim>\<open>null\<close>). A thrown error is the left summand.
\<close>

subsection \<open>Overall statistics\<close>

definition getOverallStatisticsUncached ::
  "('b, 's, 'f) lib \<Rightarrow> ('b overall_raw \<Rightarrow> string) \<Rightarrow> int \<Rightarrow> overall_stats list option \<Rightarrow>
     'b overall_raw \<Rightarrow> error + overall_stats" where
  "getOverallStatisticsUncached lib message now result input =
     (case safeParse message (overallStatisticsInputSchema lib) input of
        Failure msg \<Rightarrow> Inl (Error (''Invalid input: '' @ msg))
      | Success parsed \<Rightarrow>
          (case result of
             None \<Rightarrow>
               Inr \<lparr>total_transactions = Fin 0, total_amount = Fin 0, unique_buyers = Fin 0,
                 unique_sellers = Fin 0, latest_block_timestamp = Date now\<rparr>
           | Some rows \<Rightarrow>
               if length rows = 0 then
                 Inr \<lparr>total_transactions = Fin 0, total_amount = Fin 0, unique_buyers = Fin 0,
                   unique_sellers = Fin 0, latest_block_timestamp = Date now\<rparr>
               else
                 let data = rows ! 0
                 in Inr \<lparr>total_transactions = total_transactions data,
                      total_amount = total_amount data,
                      unique_buyers = unique_buyers data,
                      unique_sellers = unique_sellers data,
                      latest_block_timestamp = latest_block_timestamp data\<rparr>))"

subsection \<open>Top sellers\<close>

text \<open>
  \<^verbatim>\<open>toPaginatedResponse\<close> is imported; the service hands it the rows (none for \<^verbatim>\<open>null\<close>)
  and \<^verbatim>\<open>pagination.limit\<close>.
\<close>

definition listTopSellersUncached ::
  "('b, 's, 'f) lib \<Rightarrow> (('b, 's) sellers_raw \<Rightarrow> string) \<Rightarrow> ('r list \<Rightarrow> 'l \<Rightarrow> 'p) \<Rightarrow>
     'r list option \<Rightarrow> ('b, 's) sellers_raw \<Rightarrow> 'l \<Rightarrow> error + 'p" where
  "listTopSellersUncached lib message toPaginatedResponse items input pagination_limit =
     (case safeParse message (listTopSellersInputSchema lib) input of
        Failure msg \<Rightarrow> Inl (Error (''Invalid input: '' @ msg))
      | Success parsed \<Rightarrow>
          (case items of
             None \<Rightarrow> Inr (toPaginatedResponse [] pagination_limit)
           | Some rows \<Rightarrow> Inr (toPaginatedResponse rows pagination_limit)))"

subsection \<open>Bucketed statistics\<close>

text \<open>
  The bucket width in seconds and the aligned start of the first bucket, as
  \<^verbatim>\<open>getBucketedStatisticsUncached\<close> computes them from the time values \<open>start\<close> and
  \<open>end\<close> of the parsed \<^verbatim>\<open>startDate\<close> and \<^verbatim>\<open>endDate\<close> and from the parsed \<^verbatim>\<open>numBuckets\<close>.
\<close>

definition bucketSizeSeconds :: "int \<Rightarrow> int \<Rightarrow> rat \<Rightarrow> jsnum" where
  "bucketSizeSeconds start end nb =
     (let timeRangeMs = js_sub (Fin (of_int end)) (Fin (of_int start));
          bucketSizeMs = Math_floor (js_div timeRangeMs (Fin nb))
      in Math_max (Fin 1) (Math_floor (js_div bucketSizeMs (Fin 1000))))"

definition firstBucketStartTimestamp :: "int \<Rightarrow> jsnum \<Rightarrow> jsnum" where
  "firstBucketStartTimestamp start bucketSize =
     (let startTimestamp = Math_floor (js_div (Fin (of_int start)) (Fin 1000))
      in js_mul (Math_floor (js_div startTimestamp bucketSize)) bucketSize)"

text \<open>The map from the time value of \<^verbatim>\<open>bucket_start\<close> to a copy of the row.\<close>

definition dataMap :: "bucket_stats list \<Rightarrow> (jsnum \<rightharpoonup> bucket_stats)" where
  "dataMap result =
     new_Map (map (\<lambda>item. (getTime (bucket_start item),
       \<lparr>total_transactions = total_transactions item,
        total_amount = total_amount item,
        unique_buyers = unique_buyers item,
        unique_sellers = unique_sellers item,
        bucket_start = bucket_start item\<rparr>)) result)"

text \<open>
  The body of the loop for the counter \<open>i\<close>: the start of the bucket as a date, and the
  entry pushed.
\<close>

definition bucketStart :: "jsnum \<Rightarrow> jsnum \<Rightarrow> nat \<Rightarrow> date" where
  "bucketStart firstBucketStart bucketSize i =
     (let bucketStartTimestamp = js_add firstBucketStart (js_mul (Fin (of_nat i)) bucketSize)
      in new_Date (js_mul bucketStartTimestamp (Fin 1000)))"

definition time_bucket :: "jsnum \<Rightarrow> jsnum \<Rightarrow> (jsnum \<rightharpoonup> bucket_stats) \<Rightarrow> nat \<Rightarrow> bucket_stats" where
  "time_bucket firstBucketStart bucketSize dm i =
     (let bucketKey = getTime (bucketStart firstBucketStart bucketSize i)
      in case dm bucketKey of
           Some existingData \<Rightarrow> existingData
         | None \<Rightarrow>
             \<lparr>total_transactions = Fin 0, total_amount = Fin 0, unique_buyers = Fin 0,
              unique_sellers = Fin 0,
              bucket_start = bucketStart firstBucketStart bucketSize i\<rparr>)"

text \<open>
  The loop \<^verbatim>\<open>for (let i = 0; i < numBuckets; i++)\<close>, from the counter \<open>i\<close> and the series
  pushed so far. The counter is a natural number, which \<^verbatim>\<open>i++\<close> gives without rounding up
  to \<open>2\<^sup>5\<^sup>3\<close>: the function is the loop for \<^verbatim>\<open>numBuckets\<close> up to \<open>2\<^sup>5\<^sup>3\<close>.
\<close>

function completeTimeSeries ::
  "rat \<Rightarrow> jsnum \<Rightarrow> jsnum \<Rightarrow> (jsnum \<rightharpoonup> bucket_stats) \<Rightarrow> nat \<Rightarrow> bucket_stats list \<Rightarrow>
     bucket_stats list" where
  "completeTimeSeries nb firstBucketStart bucketSize dm i series =
     (if of_nat i < nb
      then completeTimeSeries nb firstBucketStart bucketSize dm (Suc i)
             (series @ [time_bucket firstBucketStart bucketSize dm i])
      else series)"
  by pat_completeness auto
termination
proof (relation "measure (\<lambda>(nb, _, _, _, i, _). nat \<lceil>nb\<rceil> - i)")
  show "wf (measure (\<lambda>(nb :: rat, _ :: jsnum, _ :: jsnum, _ :: jsnum \<rightharpoonup> bucket_stats,
      i :: nat, _ :: bucket_stats list). nat \<lceil>nb\<rceil> - i))"
    by simp
next
  fix nb :: rat and firstBucketStart bucketSize :: jsnum
    and dm :: "jsnum \<rightharpoonup> bucket_stats" and i :: nat and series :: "bucket_stats list"
  assume "of_nat i < nb"
  then have "int i < \<lceil>nb\<rceil>"
    by (simp add: less_ceiling_iff)
  then show "((nb, firstBucketStart, bucketSize, dm, Suc i,
        series @ [time_bucket firstBucketStart bucketSize dm i]),
      (nb, firstBucketStart, bucketSize, dm, i, series))
    \<in> measure (\<lambda>(nb, _, _, _, i, _). nat \<lceil>nb\<rceil> - i)"
    by simp
qed

declare completeTimeSeries.simps [simp del]

definition getBucketedStatisticsUncached ::
  "('b, 's, 'f) lib \<Rightarrow> ('b bucketed_raw \<Rightarrow> string) \<Rightarrow> int \<Rightarrow> bucket_stats list option \<Rightarrow>
     'b bucketed_raw \<Rightarrow> error + bucket_stats list" where
  "getBucketedStatisticsUncached lib message now result input =
     (case safeParse message (bucketedStatisticsInputSchema lib now) input of
        Failure msg \<Rightarrow> Inl (Error (''Invalid input: '' @ msg))
      | Success parsed \<Rightarrow>
          let bucketSize =
                bucketSizeSeconds (startDate parsed) (endDate parsed) (numBuckets parsed);
              firstBucketStart = firstBucketStartTimestamp (startDate parsed) bucketSize
          in (case result of
                None \<Rightarrow> Inr []
              | Some rows \<Rightarrow>
                  Inr (completeTimeSeries (numBuckets parsed) firstBucketStart bucketSize
                         (dataMap rows) 0 [])))"

subsection \<open>Top facilitators\<close>

text \<open>
  The function mapped over the rows:
  \<^verbatim>\<open>r => ({ ...r, facilitator: facilitatorNameMap.get(r.facilitator_name)! })\<close>. The
  non-null assertion is erased when the code is compiled; a name the map does not hold
  gives \<^verbatim>\<open>undefined\<close>, here \<open>None\<close>.
\<close>

definition with_facilitator :: "('b, 's, 'f) lib \<Rightarrow> top_facilitator \<Rightarrow> 'f listed_facilitator" where
  "with_facilitator lib r =
     top_facilitator.extend r
       (listed_facilitator.fields (facilitatorNameMap lib (tf_facilitator_name r)))"

definition listTopFacilitatorsUncached ::
  "('b, 's, 'f) lib \<Rightarrow> ('s top_facilitators_raw \<Rightarrow> string) \<Rightarrow> top_facilitator list option \<Rightarrow>
     's top_facilitators_raw \<Rightarrow> error + 'f listed_facilitator list" where
  "listTopFacilitatorsUncached lib message result input =
     (case parse message (listTopFacilitatorsInputSchema lib) input of
        Inl e \<Rightarrow> Inl e
      | Inr parsed \<Rightarrow>
          (case result of
             None \<Rightarrow> Inr []
           | Some rows \<Rightarrow>
               Inr (Array_slice (map (with_facilitator lib) rows) 0 (limit parsed))))"

subsection \<open>Bucketed facilitators statistics\<close>

text \<open>
  The bucket width is computed by the same three lines as in the bucketed statistics; the
  service writes it into the SQL text and does not use it again.
\<close>

definition facilitators_bucketSizeSeconds :: "int \<Rightarrow> int \<Rightarrow> rat \<Rightarrow> jsnum" where
  "facilitators_bucketSizeSeconds start end nb =
     (let timeRangeMs = js_sub (Fin (of_int end)) (Fin (of_int start));
          bucketSizeMs = Math_floor (js_div timeRangeMs (Fin nb))
      in Math_max (Fin 1) (Math_floor (js_div bucketSizeMs (Fin 1000))))"





section \<open>Example data\<close>

text \<open>
  A small environment and inputs on which the theorems below are instantiated: a base
  schema that accepts \<open>True\<close>, an address schema that asks for the prefix \<^verbatim>\<open>0x\<close>, and a
  month of thirty days.
\<close>

definition example_lib :: "(bool, unit, string) lib" where
  "example_lib =
     \<lparr>baseQuerySchema =
        (\<lambda>b. if b then Some \<lparr>facilitators = [''0xfa''], tokens = [''0xa0'']\<rparr> else None),
      ethereumAddressSchema = (\<lambda>a. if take 2 a = ''0x'' then Some a else None),
      sortingSchema = (\<lambda>ids s. Some (''tx_count'', True)),
      subMonths = (\<lambda>d n. d - n * 2592000000),
      USDC_ADDRESS = ''0xa0'',
      facilitatorNameMap = [''Coinbase'' \<mapsto> ''coinbase-facilitator'']\<rparr>"

definition example_message :: "'i \<Rightarrow> string" where
  "example_message input = ''issues''"

definition example_overall_raw :: "date option \<Rightarrow> bool overall_raw" where
  "example_overall_raw d =
     \<lparr>overall_base_in = True, overall_addresses_in = Some [''0xb0''],
      overall_startDate_in = d, overall_endDate_in = None\<rparr>"

definition example_overall_row :: overall_stats where
  "example_overall_row =
     \<lparr>total_transactions = Fin 7, total_amount = Fin 1250000, unique_buyers = Fin 3,
      unique_sellers = Fin 2, latest_block_timestamp = Date 1700000000000\<rparr>"

definition example_bucketed_raw :: "date \<Rightarrow> date \<Rightarrow> jsnum \<Rightarrow> bool bucketed_raw" where
  "example_bucketed_raw s e n =
     \<lparr>base_in = True, startDate_in = Some s, endDate_in = Some e, numBuckets_in = Some n,
      addresses_in = None\<rparr>"

definition example_sellers_raw :: "bool \<Rightarrow> (bool, unit) sellers_raw" where
  "example_sellers_raw b =
     \<lparr>overall_base_in = b, overall_addresses_in = None, overall_startDate_in = None,
      overall_endDate_in = None, sorting_in = ()\<rparr>"

text \<open>A bucketed row with data, an entry of zeros, and a row of the top-facilitators query.\<close>

definition example_row :: "int \<Rightarrow> bucket_stats" where
  "example_row t =
     \<lparr>total_transactions = Fin 4, total_amount = Fin 2500000, unique_buyers = Fin 2,
      unique_sellers = Fin 1, bucket_start = Date t\<rparr>"

definition zero_bucket :: "int \<Rightarrow> bucket_stats" where
  "zero_bucket t =
     \<lparr>total_transactions = Fin 0, total_amount = Fin 0, unique_buyers = Fin 0,
      unique_sellers = Fin 0, bucket_start = Date t\<rparr>"


definition example_top_row :: "string \<Rightarrow> top_facilitator" where
  "example_top_row name =
     \<lparr>tf_unique_sellers = Fin 5, tf_unique_buyers = Fin 8, tx_count = Fin 21,
      tf_total_amount = Fin 900000, tf_latest_block_timestamp = Date 1700000000000,
      tf_facilitator_name = name\<rparr>"

definition example_top_raw :: "jsnum \<Rightarrow> unit top_facilitators_raw" where
  "example_top_raw l =
     \<lparr>tf_startDate_in = None, tf_endDate_in = None, limit_in = Some l, tf_sorting_in = None,
      tf_tokens_in = None\<rparr>"



section \<open>Input validation\<close>

lemma safeParse_Some:
  "schema input = Some d \<Longrightarrow> safeParse message schema input = Success d"
  by (simp add: safeParse_def)

lemma overall_outcome:
  "(overallStatisticsInputSchema lib i = None \<longrightarrow>
      getOverallStatisticsUncached lib m now r i = Inl (Error (''Invalid input: '' @ m i))) \<and>
   (overallStatisticsInputSchema lib i \<noteq> None \<longrightarrow>
      (\<exists>out. getOverallStatisticsUncached lib m now r i = Inr out))"
  by (auto simp: getOverallStatisticsUncached_def safeParse_def Let_def split: option.splits)

lemma bucketed_outcome:
  "(bucketedStatisticsInputSchema lib now i = None \<longrightarrow>
      getBucketedStatisticsUncached lib m now r i = Inl (Error (''Invalid input: '' @ m i))) \<and>
   (bucketedStatisticsInputSchema lib now i \<noteq> None \<longrightarrow>
      (\<exists>out. getBucketedStatisticsUncached lib m now r i = Inr out))"
  by (auto simp: getBucketedStatisticsUncached_def safeParse_def Let_def split: option.splits)

lemma sellers_outcome:
  "(listTopSellersInputSchema lib i = None \<longrightarrow>
      listTopSellersUncached lib m toPaginatedResponse r i l =
        Inl (Error (''Invalid input: '' @ m i))) \<and>
   (listTopSellersInputSchema lib i \<noteq> None \<longrightarrow>
      (\<exists>out. listTopSellersUncached lib m toPaginatedResponse r i l = Inr out))"
  by (auto simp: listTopSellersUncached_def safeParse_def split: option.splits)

text \<open>
  C4. Each of \<^verbatim>\<open>getOverallStatisticsUncached\<close>, \<^verbatim>\<open>getBucketedStatisticsUncached\<close> and
  \<^verbatim>\<open>listTopSellersUncached\<close> throws an \<^verbatim>\<open>Error\<close> whose message starts with
  \<^verbatim>\<open>'Invalid input: '\<close> if and only if its input schema rejects the input; the message
  then goes on with the message of the zod error, and on an input the schema accepts the
  service returns a result.
\<close>

theorem invalid_input_iff_schema_fails:
  "((\<exists>msg. getOverallStatisticsUncached lib ma now ra ia =
        Inl (Error (''Invalid input: '' @ msg))) =
      (overallStatisticsInputSchema lib ia = None)) \<and>
   (overallStatisticsInputSchema lib ia = None \<longrightarrow>
      getOverallStatisticsUncached lib ma now ra ia =
        Inl (Error (''Invalid input: '' @ ma ia))) \<and>
   (overallStatisticsInputSchema lib ia \<noteq> None \<longrightarrow>
      (\<exists>out. getOverallStatisticsUncached lib ma now ra ia = Inr out)) \<and>
   ((\<exists>msg. getBucketedStatisticsUncached lib mb now rb ib =
        Inl (Error (''Invalid input: '' @ msg))) =
      (bucketedStatisticsInputSchema lib now ib = None)) \<and>
   (bucketedStatisticsInputSchema lib now ib = None \<longrightarrow>
      getBucketedStatisticsUncached lib mb now rb ib =
        Inl (Error (''Invalid input: '' @ mb ib))) \<and>
   (bucketedStatisticsInputSchema lib now ib \<noteq> None \<longrightarrow>
      (\<exists>out. getBucketedStatisticsUncached lib mb now rb ib = Inr out)) \<and>
   ((\<exists>msg. listTopSellersUncached lib mc toPaginatedResponse rc ic l =
        Inl (Error (''Invalid input: '' @ msg))) =
      (listTopSellersInputSchema lib ic = None)) \<and>
   (listTopSellersInputSchema lib ic = None \<longrightarrow>
      listTopSellersUncached lib mc toPaginatedResponse rc ic l =
        Inl (Error (''Invalid input: '' @ mc ic))) \<and>
   (listTopSellersInputSchema lib ic \<noteq> None \<longrightarrow>
      (\<exists>out. listTopSellersUncached lib mc toPaginatedResponse rc ic l = Inr out))"
proof -
  note a = overall_outcome [of lib ia ma now ra]
  note b = bucketed_outcome [of lib now ib mb rb]
  note c = sellers_outcome [of lib ic mc toPaginatedResponse rc l]
  have "(\<exists>msg. getOverallStatisticsUncached lib ma now ra ia =
        Inl (Error (''Invalid input: '' @ msg))) =
      (overallStatisticsInputSchema lib ia = None)"
    using a by (cases "overallStatisticsInputSchema lib ia = None") auto
  moreover have "(\<exists>msg. getBucketedStatisticsUncached lib mb now rb ib =
        Inl (Error (''Invalid input: '' @ msg))) =
      (bucketedStatisticsInputSchema lib now ib = None)"
    using b by (cases "bucketedStatisticsInputSchema lib now ib = None") auto
  moreover have "(\<exists>msg. listTopSellersUncached lib mc toPaginatedResponse rc ic l =
        Inl (Error (''Invalid input: '' @ msg))) =
      (listTopSellersInputSchema lib ic = None)"
    using c by (cases "listTopSellersInputSchema lib ic = None") auto
  ultimately show ?thesis
    using a b c by (intro conjI) blast+
qed

theorem invalid_input_iff_schema_fails_witness:
  "getOverallStatisticsUncached example_lib example_message 0 None
       (example_overall_raw (Some Invalid_Date)) = Inl (Error ''Invalid input: issues'') \<and>
   (\<exists>out. getOverallStatisticsUncached example_lib example_message 0 None
       (example_overall_raw (Some (Date 5))) = Inr out) \<and>
   getBucketedStatisticsUncached example_lib example_message 0 None
       (example_bucketed_raw (Date 0) (Date 10000) NaN) = Inl (Error ''Invalid input: issues'') \<and>
   (\<exists>out. getBucketedStatisticsUncached example_lib example_message 0 None
       (example_bucketed_raw (Date 0) (Date 10000) (Fin 3)) = Inr out) \<and>
   listTopSellersUncached example_lib example_message (\<lambda>rows l. (rows, l)) (Some [1 :: nat])
       (example_sellers_raw False) (2 :: nat) = Inl (Error ''Invalid input: issues'') \<and>
   (\<exists>out. listTopSellersUncached example_lib example_message (\<lambda>rows l. (rows, l))
       (Some [1 :: nat]) (example_sellers_raw True) (2 :: nat) = Inr out)"
proof -
  have a: "overallStatisticsInputSchema example_lib (example_overall_raw (Some Invalid_Date)) = None"
    by (simp add: overallStatisticsInputSchema_def example_lib_def example_overall_raw_def
        z_optional_def z_date_def)
  have b: "overallStatisticsInputSchema example_lib (example_overall_raw (Some (Date 5))) \<noteq> None"
    by (simp add: overallStatisticsInputSchema_def example_lib_def example_overall_raw_def
        z_optional_def z_date_def)
  have c: "bucketedStatisticsInputSchema example_lib 0
      (example_bucketed_raw (Date 0) (Date 10000) NaN) = None"
    by (simp add: bucketedStatisticsInputSchema_def example_lib_def example_bucketed_raw_def
        z_optional_def z_default_def z_date_def z_number_def)
  have d: "bucketedStatisticsInputSchema example_lib 0
      (example_bucketed_raw (Date 0) (Date 10000) (Fin 3)) \<noteq> None"
    by (simp add: bucketedStatisticsInputSchema_def example_lib_def example_bucketed_raw_def
        z_optional_def z_default_def z_date_def z_number_def)
  have e: "listTopSellersInputSchema example_lib (example_sellers_raw False) = None"
    by (simp add: listTopSellersInputSchema_def example_lib_def example_sellers_raw_def)
  have f: "listTopSellersInputSchema example_lib (example_sellers_raw True) \<noteq> None"
    by (simp add: listTopSellersInputSchema_def example_lib_def example_sellers_raw_def
        z_optional_def)
  show ?thesis
    using a b c d e f
      invalid_input_iff_schema_fails [where lib = example_lib and now = 0
        and ia = "example_overall_raw (Some Invalid_Date)" and ma = example_message
        and ra = None
        and ib = "example_bucketed_raw (Date 0) (Date 10000) NaN" and mb = example_message
        and rb = None
        and ic = "example_sellers_raw False" and mc = example_message
        and toPaginatedResponse = "\<lambda>rows l. (rows, l)" and rc = "Some [1 :: nat]"
        and l = "2 :: nat"]
      invalid_input_iff_schema_fails [where lib = example_lib and now = 0
        and ia = "example_overall_raw (Some (Date 5))" and ma = example_message
        and ra = None
        and ib = "example_bucketed_raw (Date 0) (Date 10000) (Fin 3)" and mb = example_message
        and rb = None
        and ic = "example_sellers_raw True" and mc = example_message
        and toPaginatedResponse = "\<lambda>rows l. (rows, l)" and rc = "Some [1 :: nat]"
        and l = "2 :: nat"]
    by (simp add: example_message_def)
qed

section \<open>Overall statistics: the null check\<close>

text \<open>
  C3. On an input the schema accepts, when the query resolves to \<^verbatim>\<open>null\<close> or to an empty
  list the service returns the four statistics 0 and the current time as
  \<^verbatim>\<open>latest_block_timestamp\<close>; otherwise it returns the five fields of the first row.
\<close>

theorem overall_null_check:
  assumes "overallStatisticsInputSchema lib input = Some parsed"
  shows "(result = None \<or> result = Some [] \<longrightarrow>
      getOverallStatisticsUncached lib message now result input =
        Inr \<lparr>total_transactions = Fin 0, total_amount = Fin 0, unique_buyers = Fin 0,
          unique_sellers = Fin 0, latest_block_timestamp = Date now\<rparr>) \<and>
    (\<forall>data rows. result = Some (data # rows) \<longrightarrow>
      (\<exists>out. getOverallStatisticsUncached lib message now result input = Inr out \<and>
        total_transactions out = total_transactions data \<and>
        total_amount out = total_amount data \<and>
        unique_buyers out = unique_buyers data \<and>
        unique_sellers out = unique_sellers data \<and>
        latest_block_timestamp out = latest_block_timestamp data \<and>
        out = data))"
  using assms
  by (auto simp: getOverallStatisticsUncached_def safeParse_Some)

theorem overall_null_check_witness:
  "overallStatisticsInputSchema example_lib (example_overall_raw None) \<noteq> None \<and>
   getOverallStatisticsUncached example_lib example_message 1700000000123 None
       (example_overall_raw None) =
     Inr \<lparr>total_transactions = Fin 0, total_amount = Fin 0, unique_buyers = Fin 0,
       unique_sellers = Fin 0, latest_block_timestamp = Date 1700000000123\<rparr> \<and>
   getOverallStatisticsUncached example_lib example_message 1700000000123 (Some [])
       (example_overall_raw None) =
     Inr \<lparr>total_transactions = Fin 0, total_amount = Fin 0, unique_buyers = Fin 0,
       unique_sellers = Fin 0, latest_block_timestamp = Date 1700000000123\<rparr> \<and>
   getOverallStatisticsUncached example_lib example_message 1700000000123
       (Some [example_overall_row, example_overall_row\<lparr>total_transactions := Fin 9\<rparr>])
       (example_overall_raw None) =
     Inr example_overall_row"
proof -
  obtain parsed where p:
    "overallStatisticsInputSchema example_lib (example_overall_raw None) = Some parsed"
    by (simp add: overallStatisticsInputSchema_def example_lib_def example_overall_raw_def
        z_optional_def)
  note t = overall_null_check [OF p, of _ example_message 1700000000123]
  from t [of None] t [of "Some []"]
    t [of "Some [example_overall_row, example_overall_row\<lparr>total_transactions := Fin 9\<rparr>]"]
  show ?thesis
    using p by auto
qed


section \<open>Rounding\<close>

text \<open>
  \<open>binade x\<close> is the exponent of \<open>x\<close>, so that rounding moves a number by at most half a
  unit in the last place, which is at most \<open>\<bar>x\<bar> / 2\<^sup>5\<^sup>3\<close>.
\<close>

lemma binade_ge1:
  assumes "1 \<le> \<bar>x\<bar>"
  shows "2 powi binade x \<le> \<bar>x\<bar> \<and> \<bar>x\<bar> < 2 powi (binade x + 1)"
proof -
  define n where "n = \<lfloor>\<bar>x\<bar>\<rfloor>"
  from assms have n1: "1 \<le> n" by (simp add: n_def le_floor_iff)
  then have b: "2 ^ nat (bitlen n - 1) \<le> n" "n < 2 ^ nat (bitlen n)"
    using bitlen_bounds [of n] by auto
  from n1 have b1: "1 \<le> bitlen n"
    using bitlen_eq_zero_iff [of n] bitlen_nonneg [of n] by linarith
  have e: "binade x = bitlen n - 1"
    using assms by (simp add: binade_def n_def)
  have "(2 :: rat) powi (bitlen n - 1) = of_int (2 ^ nat (bitlen n - 1))"
    using b1 by (simp add: power_int_def)
  also have "\<dots> \<le> of_int n" using b(1) by (simp only: of_int_le_iff)
  also have "\<dots> \<le> \<bar>x\<bar>" by (simp add: n_def)
  finally have lo: "2 powi (bitlen n - 1) \<le> \<bar>x\<bar>" .
  have "\<bar>x\<bar> < of_int (n + 1)" by (simp add: n_def) linarith
  also have "\<dots> \<le> of_int (2 ^ nat (bitlen n))"
    using b(2) by (simp only: of_int_le_iff)
  also have "\<dots> = (2 :: rat) powi (bitlen n)"
    using b1 by (simp add: power_int_def)
  finally have hi: "\<bar>x\<bar> < 2 powi (bitlen n)" .
  from lo hi show ?thesis by (simp add: e)
qed

lemma binade_lt1:
  assumes "x \<noteq> 0" "\<bar>x\<bar> < 1"
  shows "2 powi binade x \<le> \<bar>x\<bar> \<and> \<bar>x\<bar> < 2 powi (binade x + 1)"
proof -
  define y where "y = 1 / \<bar>x\<bar>"
  define n where "n = \<lceil>y\<rceil> - 1"
  from assms have y1: "1 < y" by (simp add: y_def)
  then have n1: "1 \<le> n" by (simp add: n_def less_ceiling_iff)
  then have b: "2 ^ nat (bitlen n - 1) \<le> n" "n < 2 ^ nat (bitlen n)"
    using bitlen_bounds [of n] by auto
  from n1 have b1: "1 \<le> bitlen n"
    using bitlen_eq_zero_iff [of n] bitlen_nonneg [of n] by linarith
  have e: "binade x = - bitlen n"
    using assms by (simp add: binade_def n_def y_def)
  have xy: "\<bar>x\<bar> = 1 / y" using assms by (simp add: y_def)
  have "y \<le> of_int (n + 1)" by (simp add: n_def)
  also have "\<dots> \<le> of_int (2 ^ nat (bitlen n))"
    using b(2) by (simp only: of_int_le_iff)
  finally have "y \<le> 2 ^ nat (bitlen n)" by simp
  with y1 have lo: "1 / 2 ^ nat (bitlen n) \<le> 1 / y"
    by (simp add: frac_le)
  have "of_int (2 ^ nat (bitlen n - 1)) \<le> (of_int n :: rat)"
    using b(1) by (simp only: of_int_le_iff)
  also have "\<dots> < y" by (simp add: n_def) linarith
  finally have "2 ^ nat (bitlen n - 1) < y" by simp
  then have hi: "1 / y < 1 / 2 ^ nat (bitlen n - 1)"
    by (simp add: frac_less2)
  have p1: "(2 :: rat) powi (- bitlen n) = 1 / 2 ^ nat (bitlen n)"
    using b1 by (simp add: power_int_def field_simps)
  have p2: "(2 :: rat) powi (1 - bitlen n) = 1 / 2 ^ nat (bitlen n - 1)"
  proof -
    have "(2 :: rat) powi (- (bitlen n - 1)) = 1 / 2 ^ nat (bitlen n - 1)"
      using b1 by (simp only: power_int_minus) (simp add: power_int_def field_simps)
    then show ?thesis by simp
  qed
  from lo hi show ?thesis by (simp add: e xy p1 p2)
qed

lemma binade_bounds:
  "x \<noteq> 0 \<Longrightarrow> 2 powi binade x \<le> \<bar>x\<bar> \<and> \<bar>x\<bar> < 2 powi (binade x + 1)"
  using binade_ge1 [of x] binade_lt1 [of x] by (cases "1 \<le> \<bar>x\<bar>") auto


lemma roundTiesToEven_of_int [simp]: "roundTiesToEven (of_int n) = n"
  by (simp add: roundTiesToEven_def)




lemma binary64_exact:
  assumes "x / 2 powi (binade x - 52) = of_int m"
  shows "binary64 x = x"
proof (cases "x = 0")
  case True
  then show ?thesis by (simp add: binary64_def)
next
  case False
  have "(2 :: rat) powi (binade x - 52) \<noteq> 0" by simp
  with assms have "of_int m * 2 powi (binade x - 52) = x"
    by (simp add: field_simps)
  with False assms show ?thesis
    by (simp add: binary64_def Let_def)
qed

lemma binade_of_int:
  assumes "n \<noteq> 0" "\<bar>n\<bar> \<le> 2 ^ 53"
  shows "0 \<le> binade (of_int n)" "binade (of_int n) \<le> 53"
proof -
  define x :: rat where "x = of_int n"
  from assms have x0: "x \<noteq> 0" and x1: "1 \<le> \<bar>x\<bar>" and x53: "\<bar>x\<bar> \<le> 2 ^ 53"
    by (simp_all add: x_def flip: of_int_abs)
  note b = binade_bounds [OF x0]
  show "0 \<le> binade (of_int n)"
  proof (rule ccontr)
    assume "\<not> 0 \<le> binade (of_int n)"
    then have "binade x + 1 \<le> 0" by (simp add: x_def)
    then have "(2 :: rat) powi (binade x + 1) \<le> 2 powi 0"
      by (intro power_int_increasing) simp_all
    with b x1 show False by simp
  qed
  show "binade (of_int n) \<le> 53"
  proof (rule ccontr)
    assume "\<not> binade (of_int n) \<le> 53"
    then have "54 \<le> binade x" by (simp add: x_def)
    then have "(2 :: rat) powi 54 \<le> 2 powi binade x"
      by (intro power_int_increasing) simp_all
    with b x53 show False by simp
  qed
qed

lemma binary64_of_int:
  assumes "\<bar>n\<bar> \<le> 2 ^ 53"
  shows "binary64 (of_int n) = of_int n"
proof (cases "n = 0")
  case True
  then show ?thesis by (simp add: binary64_def)
next
  case False
  define x :: rat where "x = of_int n"
  define e where "e = binade x"
  from binade_of_int [OF False assms] have e: "0 \<le> e" "e \<le> 53"
    by (simp_all add: e_def x_def)
  from False have x0: "x \<noteq> 0" by (simp add: x_def)
  have "\<exists>m. x / 2 powi (e - 52) = of_int m"
  proof (cases "e \<le> 52")
    case True
    then have "(2 :: rat) powi (e - 52) = 1 / 2 ^ nat (52 - e)"
      using power_int_minus [of "2 :: rat" "52 - e"] by (simp add: power_int_def field_simps)
    then have "x / 2 powi (e - 52) = of_int (n * 2 ^ nat (52 - e))"
      by (simp add: x_def)
    then show ?thesis ..
  next
    case False
    with e have e53: "e = 53" by simp
    from binade_bounds [OF x0] have "2 ^ 53 \<le> \<bar>x\<bar>"
      by (simp add: e_def [symmetric] e53)
    then have "2 ^ 53 \<le> \<bar>n\<bar>"
      by (simp add: x_def flip: of_int_abs)
    with assms have "\<bar>n\<bar> = 2 ^ 53" by simp
    then have "n = 2 ^ 53 \<or> n = - (2 ^ 53)" by (auto simp: abs_if split: if_splits)
    then have "n = 2 * (n div 2)" by auto
    then have "x = 2 * of_int (n div 2)"
      unfolding x_def by (metis of_int_mult of_int_numeral)
    then have "x / 2 powi (e - 52) = of_int (n div 2)"
      by (simp add: e53)
    then show ?thesis ..
  qed
  then obtain m where "x / 2 powi (binade x - 52) = of_int m"
    by (auto simp: e_def)
  then have "binary64 x = x" by (rule binary64_exact)
  then show ?thesis by (simp add: x_def)
qed








section \<open>Bucket width\<close>

lemma bucketSizeSeconds_closed:
  assumes "nb \<noteq> 0"
  shows "bucketSizeSeconds s e nb =
    Fin (of_int (max 1
      \<lfloor>binary64 (of_int \<lfloor>binary64 (binary64 (of_int e - of_int s) / nb)\<rfloor> / 1000)\<rfloor>))"
  using assms by (simp add: bucketSizeSeconds_def Let_def max_def)

lemma facilitators_bucketSizeSeconds_eq:
  "facilitators_bucketSizeSeconds s e nb = bucketSizeSeconds s e nb"
  by (simp add: facilitators_bucketSizeSeconds_def bucketSizeSeconds_def)

text \<open>
  The rounding shows in the width. Over 5.5 seconds, with \<^verbatim>\<open>numBuckets\<close> the number next
  to 1.1, the quotient 4999.9999999999996 rounds to 5000 and the width is 5 seconds,
  where exact division gives 4; and a range of 9007199254741999 milliseconds, which is
  not a number, is 9007199254742000 before it is halved.
\<close>

lemma bucketSizeSeconds_rounds:
  "bucketSizeSeconds 0 5500 (binary64 (11 / 10)) = Fin 5"
  "bucketSizeSeconds (- 4503599627370999) 4503599627371000 2 = Fin 4503599627371"
  by code_simp+

text \<open>
  Between two dates the range is at most 1.728e16 milliseconds, so for \<^verbatim>\<open>numBuckets\<close> at
  least 1 the width is far below \<open>2\<^sup>5\<^sup>3\<close> seconds.
\<close>

lemma floor_abs_le:
  assumes "\<bar>x :: rat\<bar> \<le> of_int n"
  shows "\<bar>\<lfloor>x\<rfloor>\<bar> \<le> n"
proof -
  from assms have "of_int (- n) \<le> x" "x \<le> of_int n"
    by (simp_all add: abs_le_iff)
  then have "- n \<le> \<lfloor>x\<rfloor>" "\<lfloor>x\<rfloor> \<le> n"
    by (simp_all only: le_floor_iff floor_le_iff)
  then show ?thesis
    by simp
qed


text \<open>
  C9. Whatever the two dates are (also when \<^verbatim>\<open>endDate\<close> is not after \<^verbatim>\<open>startDate\<close>), for
  \<^verbatim>\<open>numBuckets\<close> at least 1 the bucket width that \<^verbatim>\<open>getBucketedStatisticsUncached\<close> and
  \<^verbatim>\<open>getBucketedFacilitatorsStatisticsUncached\<close> compute is an integer of at least 1, so
  the divisor written into the SQL bucketing expression is not zero.
\<close>

theorem bucket_width_at_least_one:
  assumes "1 \<le> nb"
  shows "\<exists>k :: int. 1 \<le> k \<and> bucketSizeSeconds s e nb = Fin (of_int k) \<and>
    facilitators_bucketSizeSeconds s e nb = Fin (of_int k)"
proof -
  from assms have "nb \<noteq> 0" by auto
  then show ?thesis
    by (intro exI [of _ "max 1
          \<lfloor>binary64 (of_int \<lfloor>binary64 (binary64 (of_int e - of_int s) / nb)\<rfloor> / 1000)\<rfloor>"])
      (simp add: facilitators_bucketSizeSeconds_eq bucketSizeSeconds_closed)
qed

theorem bucket_width_at_least_one_witness:
  "(1 :: rat) \<le> 3 \<and> bucketSizeSeconds 5000 0 3 = Fin 1 \<and>
    facilitators_bucketSizeSeconds 5000 0 3 = Fin 1"
proof -
  have "bucketSizeSeconds 5000 0 3 = Fin 1"
    by code_simp
  with bucket_width_at_least_one [of 3 5000 0] show ?thesis
    by (simp add: facilitators_bucketSizeSeconds_eq)
qed

section \<open>Bucketed statistics: the zero-filled series\<close>

lemma counter_below_numBuckets: "(of_nat i < (nb :: rat)) = (i < nat \<lceil>nb\<rceil>)"
proof -
  have "(of_nat i < nb) = (of_int (int i) < nb)" by simp
  also have "\<dots> = (int i < \<lceil>nb\<rceil>)" by (simp only: less_ceiling_iff)
  also have "\<dots> = (i < nat \<lceil>nb\<rceil>)" by (simp only: zless_nat_eq_int_zless)
  finally show ?thesis .
qed

lemma completeTimeSeries_map:
  "completeTimeSeries nb f sz dm i series =
     series @ map (time_bucket f sz dm) [i ..< nat \<lceil>nb\<rceil>]"
proof (induction nb f sz dm i series rule: completeTimeSeries.induct)
  case (1 nb f sz dm i series)
  note unfold = completeTimeSeries.simps [of nb f sz dm i series]
  show ?case
  proof (cases "i < nat \<lceil>nb\<rceil>")
    case True
    then have lt: "of_nat i < nb" by (simp add: counter_below_numBuckets)
    from True have "[i ..< nat \<lceil>nb\<rceil>] = i # [Suc i ..< nat \<lceil>nb\<rceil>]"
      by (rule upt_conv_Cons)
    with 1 [OF lt] lt show ?thesis
      by (simp only: unfold if_True list.map append_Cons append_Nil append_assoc)
  next
    case False
    then have "\<not> of_nat i < nb" by (simp add: counter_below_numBuckets)
    with False show ?thesis
      by (simp only: unfold if_False) simp
  qed
qed

lemma new_Map_foldl:
  "foldl (\<lambda>m (k, v). m(k \<mapsto> v)) m0 es = m0 ++ map_of (rev es)"
  by (induction es arbitrary: m0) (auto simp: map_add_def fun_eq_iff split: option.splits)

lemma new_Map_map_of: "new_Map es = map_of (rev es)"
  by (simp add: new_Map_def new_Map_foldl)

lemma bucket_stats_copy:
  "\<lparr>total_transactions = total_transactions item, total_amount = total_amount item,
    unique_buyers = unique_buyers item, unique_sellers = unique_sellers item,
    bucket_start = bucket_start item\<rparr> = (item :: bucket_stats)"
  by simp

lemma dataMap_map_of:
  "dataMap rows = map_of (rev (map (\<lambda>item. (getTime (bucket_start item), item)) rows))"
  by (simp add: dataMap_def new_Map_map_of bucket_stats_copy)



lemma getTime_inject: "getTime a = getTime b \<Longrightarrow> a = b"
  by (cases a; cases b) simp_all









text \<open>
  The time value of a date that the constructor gives is in the range of dates, and the
  counter of the loop is exact up to \<open>2\<^sup>5\<^sup>3\<close>, where \<^verbatim>\<open>i++\<close> stops advancing.
\<close>

lemma new_Date_range:
  assumes "new_Date x = Date t"
  shows "\<bar>t\<bar> \<le> 8640000000000000"
proof (cases x)
  case (Fin r)
  with assms have r: "\<bar>r\<bar> \<le> of_int 8640000000000000" and t: "t = js_trunc r"
    by (simp_all split: if_splits)
  from r have fl: "\<bar>\<lfloor>r\<rfloor>\<bar> \<le> 8640000000000000"
    by (rule floor_abs_le)
  from r have "\<bar>- r\<bar> \<le> of_int 8640000000000000"
    by simp
  then have "\<bar>\<lfloor>- r\<rfloor>\<bar> \<le> 8640000000000000"
    by (rule floor_abs_le)
  then have ce: "\<bar>\<lceil>r\<rceil>\<bar> \<le> 8640000000000000"
    by (simp add: ceiling_def)
  show ?thesis
  proof (cases "0 \<le> r")
    case True
    with fl show ?thesis
      by (simp only: t js_trunc_def if_True)
  next
    case False
    with ce show ?thesis
      by (simp only: t js_trunc_def if_False)
  qed
qed (use assms in simp_all)

lemma counter_exact:
  assumes "i < 2 ^ 53"
  shows "js_add (Fin (of_nat i)) (Fin 1) = Fin (of_nat (Suc i))"
proof -
  from assms have "int i < 2 ^ 53"
    by (metis of_nat_less_iff of_nat_numeral of_nat_power)
  then have "\<bar>int i + 1\<bar> \<le> 2 ^ 53"
    by simp
  then have "binary64 (of_int (int i + 1)) = of_int (int i + 1)"
    by (rule binary64_of_int)
  then show ?thesis
    by simp
qed

lemma counter_stops: "js_add (Fin (2 ^ 53)) (Fin 1) = Fin (2 ^ 53)"
  by code_simp

text \<open>
  Over 5.5 seconds with \<^verbatim>\<open>numBuckets\<close> the number next to 1.1, the two buckets start at 0
  and at 5 seconds.
\<close>

lemma series_rounds:
  "getBucketedStatisticsUncached example_lib example_message 0 (Some [])
       (example_bucketed_raw (Date 0) (Date 5500) (Fin (binary64 (11 / 10)))) =
     Inr [zero_bucket 0, zero_bucket 5000]"
  by code_simp





text \<open>
  A row of the query is the entry of the series for a counter \<open>i\<close> when its
  \<^verbatim>\<open>bucket_start\<close> is the bucket start generated for \<open>i\<close> and no later row has the same
  \<^verbatim>\<open>bucket_start\<close>.
\<close>

lemma dataMap_last:
  assumes "\<forall>q\<in>set post. bucket_start q \<noteq> bucket_start r"
  shows "dataMap (pre @ r # post) (getTime (bucket_start r)) = Some r"
proof -
  from assms have "map_of (rev (map (\<lambda>item. (getTime (bucket_start item), item)) post))
      (getTime (bucket_start r)) = None"
    by (auto simp: map_of_eq_None_iff image_iff dest!: getTime_inject [OF sym])
  then show ?thesis
    by (simp add: dataMap_map_of map_add_def)
qed

lemma queried_row_on_grid_kept:
  assumes "bucketedStatisticsInputSchema lib now input = Some p"
    and "rows = pre @ r # post"
    and "\<forall>q\<in>set post. bucket_start q \<noteq> bucket_start r"
    and "i < nat \<lceil>numBuckets p\<rceil>"
    and "bucket_start r =
      bucketStart
        (firstBucketStartTimestamp (startDate p)
           (bucketSizeSeconds (startDate p) (endDate p) (numBuckets p)))
        (bucketSizeSeconds (startDate p) (endDate p) (numBuckets p)) i"
  shows "\<exists>series. getBucketedStatisticsUncached lib message now (Some rows) input = Inr series \<and>
    i < length series \<and> series ! i = r"
proof -
  define sz where "sz = bucketSizeSeconds (startDate p) (endDate p) (numBuckets p)"
  define fb where "fb = firstBucketStartTimestamp (startDate p) sz"
  from assms(5) have "dataMap rows (getTime (bucketStart fb sz i)) = Some r"
    unfolding assms(2) fb_def sz_def using dataMap_last [OF assms(3)] by simp
  then have "time_bucket fb sz (dataMap rows) i = r"
    by (simp add: time_bucket_def)
  with assms(1,4) show ?thesis
    by (simp add: getBucketedStatisticsUncached_def safeParse_def Let_def
        completeTimeSeries_map sz_def fb_def)
qed

text \<open>
  C2 says that every row of the query appears in the series. Over the ten seconds from
  the epoch with three buckets the width is 3 seconds and the series has the buckets that
  start at 0, 3 and 6 seconds; the query puts a transfer of second 9 or 10 in the bucket
  that starts at 9 seconds, and the series does not hold that row.
\<close>

theorem trailing_bucket_dropped:
  "getBucketedStatisticsUncached example_lib example_message 0 (Some [example_row 9000])
       (example_bucketed_raw (Date 0) (Date 10000) (Fin 3)) =
     Inr [zero_bucket 0, zero_bucket 3000, zero_bucket 6000] \<and>
   example_row 9000 \<notin> set [zero_bucket 0, zero_bucket 3000, zero_bucket 6000]"
proof -
  have "getBucketedStatisticsUncached example_lib example_message 0 (Some [example_row 9000])
       (example_bucketed_raw (Date 0) (Date 10000) (Fin 3)) =
     Inr [zero_bucket 0, zero_bucket 3000, zero_bucket 6000]"
    by code_simp
  then show ?thesis
    by (simp add: example_row_def zero_bucket_def)
qed

lemma numBuckets_unconstrained:
  assumes "bucketedStatisticsInputSchema lib now input = Some p"
  shows "bucketedStatisticsInputSchema lib now (input\<lparr>numBuckets_in := Some (Fin n)\<rparr>) =
    Some (p\<lparr>numBuckets := n\<rparr>)"
  using assms
  by (auto simp: bucketedStatisticsInputSchema_def z_default_def z_number_def
      split: Option.bind_splits)

text \<open>
  C10. The schema puts no bound on \<^verbatim>\<open>numBuckets\<close>: in an input it accepts, any finite
  number may stand for \<^verbatim>\<open>numBuckets\<close>, zero and the negative ones included. On an
  accepted input with \<^verbatim>\<open>numBuckets\<close> at most 0 the service returns the empty series,
  whatever the query resolved to.
\<close>

theorem nonpositive_numBuckets_empty_series:
  assumes "bucketedStatisticsInputSchema lib now input = Some p"
  shows "(\<forall>n. bucketedStatisticsInputSchema lib now (input\<lparr>numBuckets_in := Some (Fin n)\<rparr>) =
        Some (p\<lparr>numBuckets := n\<rparr>)) \<and>
    (numBuckets p \<le> 0 \<longrightarrow>
      (\<forall>result. getBucketedStatisticsUncached lib message now result input = Inr []))"
proof (intro conjI allI impI)
  fix n
  from assms show "bucketedStatisticsInputSchema lib now (input\<lparr>numBuckets_in := Some (Fin n)\<rparr>) =
      Some (p\<lparr>numBuckets := n\<rparr>)"
    by (rule numBuckets_unconstrained)
next
  fix result
  assume "numBuckets p \<le> 0"
  then have "\<lceil>numBuckets p\<rceil> \<le> 0"
    by (simp add: ceiling_le_iff)
  then have "[0 ..< nat \<lceil>numBuckets p\<rceil>] = []"
    by simp
  with assms show "getBucketedStatisticsUncached lib message now result input = Inr []"
    by (simp add: getBucketedStatisticsUncached_def safeParse_def Let_def
        completeTimeSeries_map split: option.splits)
qed

theorem nonpositive_numBuckets_empty_series_witness:
  "bucketedStatisticsInputSchema example_lib 0
       (example_bucketed_raw (Date 0) (Date 10000) (Fin (- 3))) =
     Some \<lparr>facilitators = [''0xfa''], tokens = [''0xa0''], startDate = 0, endDate = 10000,
       numBuckets = - 3, addresses = None\<rparr> \<and>
   bucketedStatisticsInputSchema example_lib 0
       ((example_bucketed_raw (Date 0) (Date 10000) (Fin (- 3)))\<lparr>numBuckets_in := Some (Fin 0)\<rparr>) =
     Some \<lparr>facilitators = [''0xfa''], tokens = [''0xa0''], startDate = 0, endDate = 10000,
       numBuckets = 0, addresses = None\<rparr> \<and>
   getBucketedStatisticsUncached example_lib example_message 0 (Some [example_row 0])
       (example_bucketed_raw (Date 0) (Date 10000) (Fin (- 3))) = Inr []"
proof -
  have a: "bucketedStatisticsInputSchema example_lib 0
       (example_bucketed_raw (Date 0) (Date 10000) (Fin (- 3))) =
     Some \<lparr>facilitators = [''0xfa''], tokens = [''0xa0''], startDate = 0, endDate = 10000,
       numBuckets = - 3, addresses = None\<rparr>"
    by code_simp
  from nonpositive_numBuckets_empty_series [OF a, of example_message] a
  show ?thesis
    by simp
qed

section \<open>Top facilitators: the slice\<close>

lemma int_min_nat_le: "0 \<le> (m :: int) \<Longrightarrow> int (min a (nat m)) \<le> m"
  by (auto simp: min_def)

lemma Array_slice_from_start:
  assumes "0 \<le> l"
  shows "Array_slice xs 0 l = take (nat \<lfloor>l\<rfloor>) xs"
proof -
  from assms have "0 \<le> \<lfloor>l\<rfloor>" by simp
  then have "take (nat (min \<lfloor>l\<rfloor> (int (length xs)))) xs = take (nat \<lfloor>l\<rfloor>) xs"
    by (cases "\<lfloor>l\<rfloor> \<le> int (length xs)") (simp_all add: min_def)
  with assms \<open>0 \<le> \<lfloor>l\<rfloor>\<close> show ?thesis
    by (simp add: Array_slice_def js_trunc_def Let_def)
qed

text \<open>
  C5, as the code has it. On an input the schema accepts with \<^verbatim>\<open>limit\<close> at least 0, the
  service returns at most \<^verbatim>\<open>limit\<close> rows: none when the query resolved to \<^verbatim>\<open>null\<close>, and
  for \<open>k\<close> rows the first \<open>min k \<lfloor>limit\<rfloor>\<close> of them in the order of the query, each with
  its \<^verbatim>\<open>facilitator\<close>.
\<close>

theorem top_facilitators_at_most_limit:
  assumes "listTopFacilitatorsInputSchema lib input = Some p"
    and "0 \<le> limit p"
  shows "listTopFacilitatorsUncached lib message None input = Inr [] \<and>
    (\<exists>out. listTopFacilitatorsUncached lib message (Some rows) input = Inr out \<and>
       out = map (with_facilitator lib) (take (min (length rows) (nat \<lfloor>limit p\<rfloor>)) rows) \<and>
       length out = min (length rows) (nat \<lfloor>limit p\<rfloor>) \<and>
       rat_of_nat (length out) \<le> limit p)"
proof -
  have run: "listTopFacilitatorsUncached lib message result input =
      (case result of None \<Rightarrow> Inr []
       | Some rows \<Rightarrow> Inr (take (nat \<lfloor>limit p\<rfloor>) (map (with_facilitator lib) rows)))"
    for result
    using assms
    by (simp add: listTopFacilitatorsUncached_def parse_def Array_slice_from_start
        split: option.splits)
  have "rat_of_nat (min (length rows) (nat \<lfloor>limit p\<rfloor>)) \<le> of_int \<lfloor>limit p\<rfloor>"
  proof -
    from assms(2) have "0 \<le> \<lfloor>limit p\<rfloor>" by simp
    then have "int (min (length rows) (nat \<lfloor>limit p\<rfloor>)) \<le> \<lfloor>limit p\<rfloor>"
      by (rule int_min_nat_le)
    then have "rat_of_int (int (min (length rows) (nat \<lfloor>limit p\<rfloor>))) \<le> of_int \<lfloor>limit p\<rfloor>"
      by (simp only: of_int_le_iff)
    then show ?thesis by simp
  qed
  also have "\<dots> \<le> limit p" by (rule of_int_floor_le)
  finally have le: "rat_of_nat (min (length rows) (nat \<lfloor>limit p\<rfloor>)) \<le> limit p" .
  have "take (nat \<lfloor>limit p\<rfloor>) (map (with_facilitator lib) rows) =
      map (with_facilitator lib) (take (min (length rows) (nat \<lfloor>limit p\<rfloor>)) rows)"
    by (simp add: take_map min_def)
  with run [of None] run [of "Some rows"] le show ?thesis
    by simp
qed


theorem top_facilitators_at_most_limit_witness:
  "listTopFacilitatorsInputSchema example_lib (example_top_raw (Fin 2)) =
     Some \<lparr>tf_startDate = None, tf_endDate = None, limit = 2,
       tf_sorting = (''tx_count'', True), tf_tokens = [''0xa0'']\<rparr> \<and>
   listTopFacilitatorsUncached example_lib example_message
       (Some [example_top_row ''Coinbase'', example_top_row ''PayAI'', example_top_row ''Unknown''])
       (example_top_raw (Fin 2)) =
     Inr [with_facilitator example_lib (example_top_row ''Coinbase''),
          with_facilitator example_lib (example_top_row ''PayAI'')]"
proof -
  have a: "listTopFacilitatorsInputSchema example_lib (example_top_raw (Fin 2)) =
     Some \<lparr>tf_startDate = None, tf_endDate = None, limit = 2,
       tf_sorting = (''tx_count'', True), tf_tokens = [''0xa0'']\<rparr>"
    by (simp add: listTopFacilitatorsInputSchema_def example_top_raw_def example_lib_def
        z_optional_def z_default_def z_number_def)
  from top_facilitators_at_most_limit [OF a, of example_message
      "[example_top_row ''Coinbase'', example_top_row ''PayAI'', example_top_row ''Unknown'']"] a
  show ?thesis
    by simp
qed

text \<open>
  C5 as stated covers every accepted \<^verbatim>\<open>limit\<close>. The schema accepts -1, and
  \<^verbatim>\<open>slice(0, -1)\<close> drops the last row only: of three rows the service returns two, which
  is more than \<^verbatim>\<open>limit\<close> and not the first \<open>min 3 (- 1)\<close> rows; of no rows (what
  \<^verbatim>\<open>LIMIT 0\<close> asks for) it returns none, which is more than \<^verbatim>\<open>limit\<close> as well.
\<close>

theorem negative_limit_counterexample:
  "listTopFacilitatorsInputSchema example_lib (example_top_raw (Fin (- 1))) =
     Some \<lparr>tf_startDate = None, tf_endDate = None, limit = - 1,
       tf_sorting = (''tx_count'', True), tf_tokens = [''0xa0'']\<rparr> \<and>
   listTopFacilitatorsUncached example_lib example_message
       (Some [example_top_row ''Coinbase'', example_top_row ''PayAI'', example_top_row ''Unknown''])
       (example_top_raw (Fin (- 1))) =
     Inr [with_facilitator example_lib (example_top_row ''Coinbase''),
          with_facilitator example_lib (example_top_row ''PayAI'')] \<and>
   \<not> rat_of_nat (length [with_facilitator example_lib (example_top_row ''Coinbase''),
          with_facilitator example_lib (example_top_row ''PayAI'')]) \<le> - 1 \<and>
   listTopFacilitatorsUncached example_lib example_message (Some [])
       (example_top_raw (Fin (- 1))) = Inr [] \<and>
   \<not> rat_of_nat (length ([] :: string listed_facilitator list)) \<le> - 1"
proof -
  have a: "listTopFacilitatorsInputSchema example_lib (example_top_raw (Fin (- 1))) =
     Some \<lparr>tf_startDate = None, tf_endDate = None, limit = - 1,
       tf_sorting = (''tx_count'', True), tf_tokens = [''0xa0'']\<rparr>"
    by code_simp
  have b: "listTopFacilitatorsUncached example_lib example_message
       (Some [example_top_row ''Coinbase'', example_top_row ''PayAI'', example_top_row ''Unknown''])
       (example_top_raw (Fin (- 1))) =
     Inr [with_facilitator example_lib (example_top_row ''Coinbase''),
          with_facilitator example_lib (example_top_row ''PayAI'')]"
    by code_simp
  have c: "listTopFacilitatorsUncached example_lib example_message (Some [])
       (example_top_raw (Fin (- 1))) = Inr []"
    by code_simp
  from a b c show ?thesis
    by simp
qed


section \<open>Bucketed facilitators statistics: the collapsed series\<close>











end
